theory Spec2Isabelle
  imports Main
begin

section \<open>Values shared by the middleware modules\<close>

text \<open>
  JSON payloads of responses and exception details, as far as the modules under
  \<^verbatim>\<open>src/api\<close> build them.
\<close>

datatype json = JStr string | JInt int | JObj "(string \<times> json) list"

text \<open>
  The Python exceptions the modules raise or catch. Only subclasses of \<^verbatim>\<open>Exception\<close>
  are modelled; \<^verbatim>\<open>HTTPException\<close> carries its status code, its detail and its headers
  (\<^verbatim>\<open>headers=None\<close> is the empty list).
\<close>

datatype exc =
    HTTPException int json "(string \<times> string) list"
  | RequestValidationError json
  | ValueError string
  | KeyError string
  | IndexError string
  | AttributeError string
  | NotImplementedError
  | RuntimeError string
  | ConnectionError string
  | OtherException string string

record request =
  http_method :: string
  path :: string
  client_host :: string
  req_headers :: "(string \<times> string) list"

record response =
  status_code :: int
  content :: json
  headers :: "(string \<times> string) list"

definition JSONResponse :: "int \<Rightarrow> json \<Rightarrow> response" where
  "JSONResponse sc c = \<lparr>status_code = sc, content = c, headers = []\<rparr>"

section \<open>\<^verbatim>\<open>api/middleware/error_handling.py\<close>: the module-level handlers\<close>

text \<open>
  \<^verbatim>\<open>handle_http_exception\<close>, \<^verbatim>\<open>handle_validation_error\<close> and
  \<^verbatim>\<open>handle_database_error\<close> log a constant text (the log strings are plain literals,
  not f-strings) and return a \<^verbatim>\<open>JSONResponse\<close>. For an exception that has no
  \<^verbatim>\<open>status_code\<close>, \<^verbatim>\<open>detail\<close> or \<^verbatim>\<open>errors()\<close> the attribute access raises
  \<^verbatim>\<open>AttributeError\<close>.
\<close>

definition handle_http_exception :: "request \<Rightarrow> exc \<Rightarrow> exc + response" where
  "handle_http_exception request exc =
     (case exc of
        HTTPException sc detail hs \<Rightarrow> Inr (JSONResponse sc (JObj [(''detail'', detail)]))
      | _ \<Rightarrow> Inl (AttributeError ''status_code''))"

definition handle_validation_error :: "request \<Rightarrow> exc \<Rightarrow> exc + response" where
  "handle_validation_error request exc =
     (case exc of
        RequestValidationError errors \<Rightarrow> Inr (JSONResponse 422 (JObj [(''detail'', errors)]))
      | _ \<Rightarrow> Inl (AttributeError ''errors''))"

definition handle_database_error :: "request \<Rightarrow> exc \<Rightarrow> response" where
  "handle_database_error request exc =
     JSONResponse 500 (JObj [(''detail'', JStr ''A database error occurred.'')])"

section \<open>\<^verbatim>\<open>api/service/database_service.py\<close>\<close>

text \<open>
  The Redis client library is the environment of \<^verbatim>\<open>DatabaseService\<close>:
  \<^verbatim>\<open>redis.Redis(**REDIS_CONFIG)\<close> yields a connection or raises, and every
  \<^verbatim>\<open>ping()\<close> on a connection succeeds or raises. Pings are numbered, so that the ping
  of \<^verbatim>\<open>_init_redis\<close> and a later one may differ.
\<close>

record 'c redis_env =
  Redis :: "exc + 'c"
  ping :: "'c \<Rightarrow> nat \<Rightarrow> exc + unit"

record 'c database_service =
  redis_conn :: "'c option"

text \<open>
  \<^verbatim>\<open>_init_redis\<close>: the body of the \<^verbatim>\<open>try\<close> assigns \<^verbatim>\<open>self._redis\<close> and pings;
  both handlers (\<^verbatim>\<open>redis.ConnectionError\<close>, then \<^verbatim>\<open>Exception\<close>) set
  \<^verbatim>\<open>self._redis = None\<close> and return.
\<close>

definition init_redis_try :: "'c redis_env \<Rightarrow> 'c database_service \<Rightarrow> exc + 'c database_service" where
  "init_redis_try env self =
     (case Redis env of
        Inl e \<Rightarrow> Inl e
      | Inr c \<Rightarrow>
          (case ping env c 0 of
             Inl e \<Rightarrow> Inl e
           | Inr _ \<Rightarrow> Inr (self\<lparr>redis_conn := Some c\<rparr>)))"

definition init_redis :: "'c redis_env \<Rightarrow> 'c database_service \<Rightarrow> exc + 'c database_service" where
  "init_redis env self =
     (case init_redis_try env self of
        Inr self' \<Rightarrow> Inr self'
      | Inl (ConnectionError m) \<Rightarrow> Inr (self\<lparr>redis_conn := None\<rparr>)
      | Inl e \<Rightarrow> Inr (self\<lparr>redis_conn := None\<rparr>))"

definition DatabaseService :: "'c redis_env \<Rightarrow> exc + 'c database_service" where
  "DatabaseService env = init_redis env \<lparr>redis_conn = None\<rparr>"

text \<open>
  \<^verbatim>\<open>is_redis_available\<close>: \<^verbatim>\<open>False\<close> without a connection; otherwise the \<open>n\<close>-th ping
  decides, and the bare \<^verbatim>\<open>except\<close> turns every exception into \<^verbatim>\<open>False\<close>.
\<close>

definition is_redis_available :: "'c redis_env \<Rightarrow> nat \<Rightarrow> 'c database_service \<Rightarrow> exc + bool" where
  "is_redis_available env n self =
     (case redis_conn self of
        None \<Rightarrow> Inr False
      | Some c \<Rightarrow>
          (case ping env c n of
             Inr _ \<Rightarrow> Inr True
           | Inl e \<Rightarrow> Inr False))"

section \<open>\<^verbatim>\<open>api/middleware/rate_limiting.py\<close>\<close>

subsection \<open>Python string helpers\<close>

text \<open>\<^verbatim>\<open>s.startswith(p)\<close> and \<^verbatim>\<open>s.split(" ")\<close> (every single space separates).\<close>

definition startswith :: "string \<Rightarrow> string \<Rightarrow> bool" where
  "startswith s p = (take (length p) s = p)"

fun split_sp :: "string \<Rightarrow> string list" where
  "split_sp [] = [[]]"
| "split_sp (c # cs) =
     (if c = CHR '' '' then [] # split_sp cs
      else (case split_sp cs of w # ws \<Rightarrow> (c # w) # ws | [] \<Rightarrow> [[c]]))"

text \<open>\<^verbatim>\<open>xs[i]\<close> for \<open>i \<ge> 0\<close>; out of range raises \<^verbatim>\<open>IndexError\<close>.\<close>

definition index :: "'a list \<Rightarrow> nat \<Rightarrow> exc + 'a" where
  "index xs i = (if i < length xs then Inr (xs ! i) else Inl (IndexError ''list index out of range''))"

text \<open>\<^verbatim>\<open>str(n)\<close> of an integer, in decimal.\<close>

definition digit :: "nat \<Rightarrow> char" where
  "digit d = ''0123456789'' ! d"

fun str_nat :: "nat \<Rightarrow> string" where
  "str_nat n = (if n < 10 then [digit n] else str_nat (n div 10) @ [digit (n mod 10)])"

declare str_nat.simps [simp del]

definition str_int :: "int \<Rightarrow> string" where
  "str_int i = (if i < 0 then CHR ''-'' # str_nat (nat (- i)) else str_nat (nat i))"

text \<open>\<^verbatim>\<open>response.headers[k] = v\<close>: replace the header where it is, or append it.\<close>

fun set_header :: "string \<Rightarrow> string \<Rightarrow> (string \<times> string) list \<Rightarrow> (string \<times> string) list" where
  "set_header k v [] = [(k, v)]"
| "set_header k v ((k', v') # hs) =
     (if k' = k then (k, v) # hs else (k', v') # set_header k v hs)"

subsection \<open>The collaborating services\<close>

text \<open>
  \<^verbatim>\<open>RateLimitService\<close> and \<^verbatim>\<open>AuthService\<close> are imported by the module and are
  parameters here. The operations of the rate-limit service act on a state \<open>'s\<close> (the
  shared store and whatever else the request can change) and may raise; so does the rest
  of the chain, \<^verbatim>\<open>call_next\<close>. The limit information is the dictionary the middleware
  reads the keys \<^verbatim>\<open>reset\<close>, \<^verbatim>\<open>limit\<close>, \<^verbatim>\<open>remaining\<close> and \<^verbatim>\<open>window\<close> of.
\<close>

record limit_info =
  reset :: string
  limit :: int
  remaining :: int
  window :: int

record token_data =
  username :: string

record 's rate_limit_service =
  check_rate_limit :: "string \<Rightarrow> string \<Rightarrow> string \<Rightarrow> 's \<Rightarrow> (exc + bool \<times> limit_info) \<times> 's"
  log_request :: "string \<Rightarrow> string \<Rightarrow> string \<Rightarrow> 's \<Rightarrow> (exc + unit) \<times> 's"

record auth_service =
  verify_token :: "string \<Rightarrow> exc + bool \<times> token_data option"

type_synonym 's call_next = "request \<Rightarrow> 's \<Rightarrow> (exc + response) \<times> 's"

subsection \<open>Module functions and \<^verbatim>\<open>RateLimitMiddleware\<close>\<close>


text \<open>
  \<^verbatim>\<open>get_user_id\<close>: the body of its \<^verbatim>\<open>try\<close>, and the method, whose handler turns
  every exception into \<^verbatim>\<open>None\<close>.
\<close>

definition get_user_id_try :: "auth_service \<Rightarrow> request \<Rightarrow> exc + string option" where
  "get_user_id_try auth request =
     (case map_of (req_headers request) ''Authorization'' of
        None \<Rightarrow> Inr None
      | Some auth_header \<Rightarrow>
          if auth_header = [] then Inr None
          else if startswith auth_header ''Bearer '' then
            (case index (split_sp auth_header) 1 of
               Inl e \<Rightarrow> Inl e
             | Inr token \<Rightarrow>
                 (case verify_token auth token of
                    Inl e \<Rightarrow> Inl e
                  | Inr (is_valid, td) \<Rightarrow>
                      (case td of
                         None \<Rightarrow> Inr None
                       | Some d \<Rightarrow> if is_valid then Inr (Some (username d)) else Inr None)))
          else Inr None)"

definition get_user_id :: "auth_service \<Rightarrow> request \<Rightarrow> string option" where
  "get_user_id auth request =
     (case get_user_id_try auth request of Inl e \<Rightarrow> None | Inr r \<Rightarrow> r)"

text \<open>\<^verbatim>\<open>await self.get_user_id(request) or "anonymous"\<close>: \<^verbatim>\<open>None\<close> and \<^verbatim>\<open>""\<close> are falsy.\<close>

definition user_id_or_anonymous :: "string option \<Rightarrow> string" where
  "user_id_or_anonymous r =
     (case r of None \<Rightarrow> ''anonymous'' | Some u \<Rightarrow> if u = [] then ''anonymous'' else u)"

definition skip_rate_limit :: "string \<Rightarrow> bool" where
  "skip_rate_limit endpoint =
     (startswith endpoint ''/static/'' \<or> startswith endpoint ''/public/'' \<or>
      startswith endpoint ''/health'')"

definition rate_limit_detail :: "limit_info \<Rightarrow> json" where
  "rate_limit_detail limit_info =
     JObj [(''error'', JStr ''Too Many Requests''),
           (''reset'', JStr (reset limit_info)),
           (''limit'', JInt (limit limit_info)),
           (''remaining'', JInt 0),
           (''retry_after'', JInt (window limit_info))]"

definition add_rate_limit_headers :: "limit_info \<Rightarrow> response \<Rightarrow> response" where
  "add_rate_limit_headers limit_info response =
     response\<lparr>headers :=
       set_header ''X-RateLimit-Reset'' (reset limit_info)
         (set_header ''X-RateLimit-Remaining'' (str_int (remaining limit_info))
           (set_header ''X-RateLimit-Limit'' (str_int (limit limit_info)) (headers response)))\<rparr>"

text \<open>The body of the \<^verbatim>\<open>try\<close> of \<^verbatim>\<open>dispatch\<close>.\<close>

definition dispatch_try ::
  "'s rate_limit_service \<Rightarrow> auth_service \<Rightarrow> 's call_next \<Rightarrow> request \<Rightarrow> 's \<Rightarrow> (exc + response) \<times> 's" where
  "dispatch_try svc auth call_next request s =
     (let user_id = user_id_or_anonymous (get_user_id auth request);
          ip_address = client_host request;
          endpoint = path request
      in if skip_rate_limit endpoint then call_next request s
         else
           (case check_rate_limit svc user_id endpoint ip_address s of
              (Inl e, s1) \<Rightarrow> (Inl e, s1)
            | (Inr (is_allowed, limit_info), s1) \<Rightarrow>
                if is_allowed then
                  (case log_request svc user_id endpoint ip_address s1 of
                     (Inl e, s2) \<Rightarrow> (Inl e, s2)
                   | (Inr u, s2) \<Rightarrow>
                       (case call_next request s2 of
                          (Inl e, s3) \<Rightarrow> (Inl e, s3)
                        | (Inr response, s3) \<Rightarrow>
                            (Inr (add_rate_limit_headers limit_info response), s3)))
                else (Inl (HTTPException 429 (rate_limit_detail limit_info) []), s1)))"

text \<open>
  The two handlers of \<^verbatim>\<open>dispatch\<close>: an \<^verbatim>\<open>HTTPException\<close> is raised again as it is,
  any other exception becomes \<^verbatim>\<open>HTTPException(500)\<close>.
\<close>

definition dispatch_except :: "exc \<Rightarrow> exc" where
  "dispatch_except e =
     (case e of
        HTTPException sc d hs \<Rightarrow> HTTPException sc d hs
      | _ \<Rightarrow> HTTPException 500 (JStr ''Internal server error in rate limiting'') [])"

definition dispatch ::
  "'s rate_limit_service \<Rightarrow> auth_service \<Rightarrow> 's call_next \<Rightarrow> request \<Rightarrow> 's \<Rightarrow> (exc + response) \<times> 's" where
  "dispatch svc auth call_next request s =
     (case dispatch_try svc auth call_next request s of
        (Inl e, s') \<Rightarrow> (Inl (dispatch_except e), s')
      | (Inr response, s') \<Rightarrow> (Inr response, s'))"

text \<open>\<^verbatim>\<open>handle_exceeded_rate_limit\<close>; no code of the module calls it.\<close>

definition handle_exceeded_rate_limit :: "request \<Rightarrow> limit_info \<Rightarrow> response" where
  "handle_exceeded_rate_limit request limit_info =
     \<lparr>status_code = 429,
      content = JObj [(''error'', JStr ''Too Many Requests''),
                      (''message'', JStr ''Rate limit exceeded''),
                      (''reset'', JStr (reset limit_info)),
                      (''limit'', JInt (limit limit_info)),
                      (''remaining'', JInt 0),
                      (''retry_after'', JInt (window limit_info))],
      headers = [(''X-RateLimit-Limit'', str_int (limit limit_info)),
                 (''X-RateLimit-Remaining'', ''0''),
                 (''X-RateLimit-Reset'', reset limit_info),
                 (''Retry-After'', str_int (window limit_info))]\<rparr>"

section \<open>\<^verbatim>\<open>api/middleware/__init__.py\<close>: the middleware chain\<close>

datatype middleware =
    MetricsMiddleware | LoggingMiddleware | SecurityMiddleware | ValidationMiddleware
  | CompressionMiddleware | ErrorHandlingMiddleware | RateLimitMiddleware | CacheMiddleware
  | AuthMiddleware

text \<open>
  The application object of the framework, as far as \<^verbatim>\<open>setup_middleware\<close> uses it.
  Starlette's \<^verbatim>\<open>add_middleware\<close> raises \<^verbatim>\<open>RuntimeError\<close> once the application has
  started, and otherwise does \<^verbatim>\<open>self.user_middleware.insert(0, Middleware(cls))\<close>: the
  class added last comes first in the list.
\<close>

record app =
  user_middleware :: "middleware list"
  started :: bool

definition add_middleware :: "middleware \<Rightarrow> app \<Rightarrow> exc + app" where
  "add_middleware cls a =
     (if started a then Inl (RuntimeError ''Cannot add middleware after an application has started'')
      else Inr (a\<lparr>user_middleware := cls # user_middleware a\<rparr>))"

definition and_then :: "exc + 'a \<Rightarrow> ('a \<Rightarrow> exc + 'b) \<Rightarrow> exc + 'b" where
  "and_then r f = (case r of Inl e \<Rightarrow> Inl e | Inr x \<Rightarrow> f x)"

text \<open>
  \<^verbatim>\<open>setup_middleware\<close>: nine calls in the order of the source; its handler logs and
  raises the exception again.
\<close>

definition setup_middleware :: "app \<Rightarrow> exc + app" where
  "setup_middleware a =
     and_then (add_middleware MetricsMiddleware a) (\<lambda>a.
     and_then (add_middleware LoggingMiddleware a) (\<lambda>a.
     and_then (add_middleware SecurityMiddleware a) (\<lambda>a.
     and_then (add_middleware ValidationMiddleware a) (\<lambda>a.
     and_then (add_middleware CompressionMiddleware a) (\<lambda>a.
     and_then (add_middleware ErrorHandlingMiddleware a) (\<lambda>a.
     and_then (add_middleware RateLimitMiddleware a) (\<lambda>a.
     and_then (add_middleware CacheMiddleware a) (\<lambda>a.
     add_middleware AuthMiddleware a))))))))"

text \<open>
  Starlette's \<^verbatim>\<open>build_middleware_stack\<close> starts from the router and wraps it with the
  classes of \<^verbatim>\<open>reversed(user_middleware)\<close>, so the first class of the list is the
  outermost one. A stage is observed here by the trace of the stages a request has
  entered: a middleware appends itself to the trace and calls the application it wraps;
  the router leaves the trace as it is.
\<close>

type_synonym stage_app = "middleware list \<Rightarrow> middleware list"

definition router :: stage_app where
  "router trace = trace"

definition wrap :: "stage_app \<Rightarrow> middleware \<Rightarrow> stage_app" where
  "wrap inner cls = (\<lambda>trace. inner (trace @ [cls]))"

definition build_middleware_stack :: "app \<Rightarrow> stage_app" where
  "build_middleware_stack a = foldl wrap router (rev (user_middleware a))"

definition stages_entered :: "app \<Rightarrow> middleware list" where
  "stages_entered a = build_middleware_stack a []"

section \<open>\<^verbatim>\<open>api/middleware/error_handling.py\<close>: \<^verbatim>\<open>ErrorHandlingMiddleware\<close>\<close>

text \<open>\<^verbatim>\<open>type(exc).__name__\<close> and \<^verbatim>\<open>str(exc)\<close> of the modelled exceptions.\<close>

fun type_name :: "exc \<Rightarrow> string" where
  "type_name (HTTPException sc d hs) = ''HTTPException''"
| "type_name (RequestValidationError j) = ''RequestValidationError''"
| "type_name (ValueError m) = ''ValueError''"
| "type_name (KeyError m) = ''KeyError''"
| "type_name (IndexError m) = ''IndexError''"
| "type_name (AttributeError m) = ''AttributeError''"
| "type_name NotImplementedError = ''NotImplementedError''"
| "type_name (RuntimeError m) = ''RuntimeError''"
| "type_name (ConnectionError m) = ''ConnectionError''"
| "type_name (OtherException t m) = t"

text \<open>
  The settings of \<^verbatim>\<open>__init__\<close>. \<^verbatim>\<open>status_codes\<close> is looked up with the exact type of
  the exception; \<^verbatim>\<open>HTTPException\<close> maps to \<^verbatim>\<open>None\<close>.
\<close>

definition NOTIFY_ON_STATUS :: "int list" where
  "NOTIFY_ON_STATUS = [500, 503]"

definition ERROR_AGGREGATION_WINDOW :: int where
  "ERROR_AGGREGATION_WINDOW = 300"

definition ERROR_NOTIFICATION_THRESHOLD :: nat where
  "ERROR_NOTIFICATION_THRESHOLD = 5"

fun status_codes :: "exc \<Rightarrow> int option" where
  "status_codes (RequestValidationError j) = Some 422"
| "status_codes (ValueError m) = Some 400"
| "status_codes (KeyError m) = Some 400"
| "status_codes (HTTPException sc d hs) = None"
| "status_codes (OtherException t m) = (if t = ''Exception'' then Some 500 else None)"
| "status_codes e = None"

text \<open>
  The status code chosen in \<^verbatim>\<open>dispatch\<close>:
  \<^verbatim>\<open>getattr(exc, "status_code", None) or self.status_codes.get(type(exc)) or self.status_codes.get(Exception)\<close>,
  where \<open>0\<close> and \<^verbatim>\<open>None\<close> are falsy.
\<close>

definition getattr_status_code :: "exc \<Rightarrow> int option" where
  "getattr_status_code e = (case e of HTTPException sc d hs \<Rightarrow> Some sc | _ \<Rightarrow> None)"

definition py_or :: "int option \<Rightarrow> int option \<Rightarrow> int option" where
  "py_or a b = (case a of None \<Rightarrow> b | Some n \<Rightarrow> if n = 0 then b else Some n)"

definition get_status_code :: "exc \<Rightarrow> int option" where
  "get_status_code e =
     py_or (py_or (getattr_status_code e) (status_codes e))
           (status_codes (OtherException ''Exception'' []))"

text \<open>
  What \<^verbatim>\<open>_get_error_details\<close> takes from outside the request and the exception: the
  fresh \<^verbatim>\<open>uuid4()\<close>, the clock, the traceback, the rendering \<^verbatim>\<open>str(exc)\<close> and the
  user that an earlier stage may have stored in \<^verbatim>\<open>request.state\<close>.
\<close>

record error_env =
  uuid4 :: string
  timestamp :: string
  location :: string
  traceback :: string
  str_exc :: "exc \<Rightarrow> string"
  state_user :: "string option"

record error_details =
  ed_id :: string
  ed_timestamp :: string
  ed_type :: string
  ed_message :: string
  ed_location :: string
  ed_traceback :: string
  ed_context :: request
  ed_user_id :: string

definition get_error_details :: "error_env \<Rightarrow> request \<Rightarrow> exc \<Rightarrow> error_details" where
  "get_error_details env request exc =
     \<lparr>ed_id = uuid4 env,
      ed_timestamp = timestamp env,
      ed_type = type_name exc,
      ed_message = str_exc env exc,
      ed_location = location env,
      ed_traceback = traceback env,
      ed_context = request,
      ed_user_id = (case state_user env of None \<Rightarrow> ''anonymous'' | Some u \<Rightarrow> u)\<rparr>"

text \<open>
  The class body of \<^verbatim>\<open>ErrorHandlingMiddleware\<close> ends before
  \<^verbatim>\<open>handle_http_exception\<close>: it defines \<^verbatim>\<open>__init__\<close> and \<^verbatim>\<open>_get_error_details\<close>.
  The \<^verbatim>\<open>async def dispatch\<close> of the module is indented under
  \<^verbatim>\<open>handle_database_error\<close>, after its \<^verbatim>\<open>return\<close>, and the methods
  \<^verbatim>\<open>_should_notify\<close>, \<^verbatim>\<open>_create_error_notification\<close> and \<^verbatim>\<open>_get_response_data\<close>
  that it calls on \<^verbatim>\<open>self\<close> are defined nowhere in the module.
\<close>

definition ErrorHandlingMiddleware_methods :: "string list" where
  "ErrorHandlingMiddleware_methods = [''__init__'', ''_get_error_details'']"

text \<open>
  The three methods are parameters of the model of \<^verbatim>\<open>dispatch\<close>; a call of a method
  goes through the method table of the class and raises \<^verbatim>\<open>AttributeError\<close> for a
  name that is not in it.
\<close>

record 's error_helpers =
  should_notify :: "string \<Rightarrow> int \<Rightarrow> 's \<Rightarrow> (exc + bool) \<times> 's"
  create_error_notification :: "error_details \<Rightarrow> int \<Rightarrow> 's \<Rightarrow> (exc + unit) \<times> 's"
  get_response_data :: "error_details \<Rightarrow> int \<Rightarrow> exc + json"

definition call_method ::
  "string list \<Rightarrow> string \<Rightarrow> ('s \<Rightarrow> (exc + 'a) \<times> 's) \<Rightarrow> 's \<Rightarrow> (exc + 'a) \<times> 's" where
  "call_method methods name f s =
     (if name \<in> set methods then f s else (Inl (AttributeError name), s))"

definition error_response :: "error_details \<Rightarrow> int \<Rightarrow> json \<Rightarrow> response" where
  "error_response error_details sc response_data =
     (JSONResponse sc response_data)
       \<lparr>headers := set_header ''X-Error-Type'' (ed_type error_details)
                     (set_header ''X-Error-ID'' (ed_id error_details) [])\<rparr>"

text \<open>The inner \<^verbatim>\<open>try\<close> of \<^verbatim>\<open>dispatch\<close>, entered with the exception of the chain.\<close>

definition handler_try ::
  "string list \<Rightarrow> 's error_helpers \<Rightarrow> error_env \<Rightarrow> request \<Rightarrow> exc \<Rightarrow> 's \<Rightarrow> (exc + response) \<times> 's" where
  "handler_try methods h env request exc s =
     (let error_details = get_error_details env request exc in
      case get_status_code exc of
        None \<Rightarrow> (Inl (OtherException ''TypeError'' ''>= not supported''), s)
      | Some sc \<Rightarrow>
          (case call_method methods ''_should_notify'' (should_notify h (ed_type error_details) sc) s of
             (Inl e, s1) \<Rightarrow> (Inl e, s1)
           | (Inr notify, s1) \<Rightarrow>
               (case (if notify
                      then call_method methods ''_create_error_notification''
                             (create_error_notification h error_details sc) s1
                      else (Inr (), s1)) of
                  (Inl e, s2) \<Rightarrow> (Inl e, s2)
                | (Inr u, s2) \<Rightarrow>
                    (case call_method methods ''_get_response_data''
                            (\<lambda>s. (get_response_data h error_details sc, s)) s2 of
                       (Inl e, s3) \<Rightarrow> (Inl e, s3)
                     | (Inr response_data, s3) \<Rightarrow>
                         (Inr (error_response error_details sc response_data), s3)))))"

definition fallback_response :: response where
  "fallback_response =
     JSONResponse 500
       (JObj [(''error'', JObj [(''type'', JStr ''InternalServerError''),
                                (''message'', JStr ''An unexpected error occurred'')])])"

text \<open>
  The function \<^verbatim>\<open>dispatch\<close> as the module writes it, for a class with the given method
  table: the response of the chain, or for an exception of the chain the response of the
  handler, or the fallback response when the handler raises itself.
\<close>

definition error_dispatch ::
  "string list \<Rightarrow> 's error_helpers \<Rightarrow> error_env \<Rightarrow> 's call_next \<Rightarrow> request \<Rightarrow> 's \<Rightarrow> (exc + response) \<times> 's" where
  "error_dispatch methods h env call_next request s =
     (case call_next request s of
        (Inr response, s') \<Rightarrow> (Inr response, s')
      | (Inl exc, s') \<Rightarrow>
          (case handler_try methods h env request exc s' of
             (Inr response, s'') \<Rightarrow> (Inr response, s'')
           | (Inl e, s'') \<Rightarrow> (Inr fallback_response, s'')))"

text \<open>
  Starlette's \<^verbatim>\<open>BaseHTTPMiddleware.dispatch\<close> is \<^verbatim>\<open>raise NotImplementedError()\<close>. The
  dispatch that runs for \<^verbatim>\<open>ErrorHandlingMiddleware\<close> is the one of the class when its
  method table has one, and the inherited one otherwise.
\<close>

definition BaseHTTPMiddleware_dispatch :: "'s call_next \<Rightarrow> request \<Rightarrow> 's \<Rightarrow> (exc + response) \<times> 's" where
  "BaseHTTPMiddleware_dispatch call_next request s = (Inl NotImplementedError, s)"

definition ErrorHandlingMiddleware_dispatch ::
  "'s error_helpers \<Rightarrow> error_env \<Rightarrow> 's call_next \<Rightarrow> request \<Rightarrow> 's \<Rightarrow> (exc + response) \<times> 's" where
  "ErrorHandlingMiddleware_dispatch h env call_next request s =
     (if ''dispatch'' \<in> set ErrorHandlingMiddleware_methods
      then error_dispatch ErrorHandlingMiddleware_methods h env call_next request s
      else BaseHTTPMiddleware_dispatch call_next request s)"

section \<open>A sequence of requests\<close>

text \<open>
  The requests of a list pass through one stage in order, each on the state the one
  before left; the results are collected. The state is where a stage or the methods it
  calls record what they emit.
\<close>

fun serve ::
  "(request \<Rightarrow> 's \<Rightarrow> (exc + response) \<times> 's) \<Rightarrow> request list \<Rightarrow> 's \<Rightarrow>
     (exc + response) list \<times> 's" where
  "serve stage [] s = ([], s)"
| "serve stage (request # requests) s =
     (case stage request s of
        (r, s') \<Rightarrow> (case serve stage requests s' of (rs, s'') \<Rightarrow> (r # rs, s'')))"

section \<open>Concrete requests and collaborators\<close>

text \<open>The inputs at which the properties below are evaluated.\<close>

fun is_HTTPException :: "exc \<Rightarrow> bool" where
  "is_HTTPException (HTTPException sc d hs) = True"
| "is_HTTPException e = False"

definition req_orders :: request where
  "req_orders = \<lparr>http_method = ''GET'', path = ''/orders'', client_host = ''10.0.0.1'',
                 req_headers = [(''Authorization'', ''Bearer abc'')]\<rparr>"

definition req_health :: request where
  "req_health = \<lparr>http_method = ''GET'', path = ''/health'', client_host = ''10.0.0.1'',
                 req_headers = []\<rparr>"

definition auth_reject :: auth_service where
  "auth_reject = \<lparr>verify_token = (\<lambda>token. Inr (False, None))\<rparr>"

definition ok_response :: response where
  "ok_response = \<lparr>status_code = 200, content = JObj [], headers = []\<rparr>"

definition next_ok :: "unit call_next" where
  "next_ok = (\<lambda>request s. (Inr ok_response, s))"

definition next_raises :: "unit call_next" where
  "next_raises = (\<lambda>request s. (Inl (ValueError ''boom''), s))"

definition svc_down :: "unit rate_limit_service" where
  "svc_down =
     \<lparr>check_rate_limit = (\<lambda>u e i s. (Inl (ConnectionError ''store unavailable''), s)),
      log_request = (\<lambda>u e i s. (Inl (ConnectionError ''store unavailable''), s))\<rparr>"

definition info_denied :: limit_info where
  "info_denied = \<lparr>reset = ''2025-06-03T12:45:00'', limit = 3, remaining = 0, window = 60\<rparr>"

definition svc_deny :: "unit rate_limit_service" where
  "svc_deny = \<lparr>check_rate_limit = (\<lambda>u e i s. (Inr (False, info_denied), s)),
               log_request = (\<lambda>u e i s. (Inr (), s))\<rparr>"

definition helpers_idle :: "unit error_helpers" where
  "helpers_idle = \<lparr>should_notify = (\<lambda>t sc s. (Inr False, s)),
                   create_error_notification = (\<lambda>d sc s. (Inr (), s)),
                   get_response_data = (\<lambda>d sc. Inr (JObj []))\<rparr>"

definition env_boom :: error_env where
  "env_boom = \<lparr>uuid4 = ''id-1'', timestamp = ''t'', location = ''Unknown'', traceback = ''tb'',
               str_exc = (\<lambda>e. ''boom''), state_user = None\<rparr>"

definition redis_down :: "nat redis_env" where
  "redis_down = \<lparr>Redis = Inl (ConnectionError ''refused''),
                 ping = (\<lambda>c n. Inl (ConnectionError ''refused''))\<rparr>"

text \<open>
  A chain that raises the same \<^verbatim>\<open>RuntimeError\<close> for every request, and methods
  that would notify on every error and count the notifications they create in the state.
\<close>

definition next_boom :: "nat call_next" where
  "next_boom = (\<lambda>request s. (Inl (RuntimeError ''boom''), s))"

definition helpers_notify :: "nat error_helpers" where
  "helpers_notify = \<lparr>should_notify = (\<lambda>t sc s. (Inr True, s)),
                     create_error_notification = (\<lambda>d sc s. (Inr (), Suc s)),
                     get_response_data = (\<lambda>d sc. Inr (JObj []))\<rparr>"

definition five_requests :: "request list" where
  "five_requests = [req_orders, req_orders, req_orders, req_orders, req_orders]"

section \<open>Properties\<close>

subsection \<open>Database service\<close>

text \<open>
  C9. Constructing a \<^verbatim>\<open>DatabaseService\<close> never raises. When the connection or the
  first ping raises any exception, the connection field is \<^verbatim>\<open>None\<close> and
  \<^verbatim>\<open>is_redis_available()\<close> returns \<^verbatim>\<open>False\<close>; and on a service that holds a
  connection, a later ping that raises makes \<^verbatim>\<open>is_redis_available()\<close> return
  \<^verbatim>\<open>False\<close> instead of raising.
\<close>

theorem database_service_never_raises:
  "(\<exists>self. DatabaseService env = Inr self \<and>
       ((\<exists>e. init_redis_try env \<lparr>redis_conn = None\<rparr> = Inl e) \<longrightarrow>
          redis_conn self = None \<and> is_redis_available env n self = Inr False)) \<and>
   (\<forall>c e. redis_conn svc = Some c \<and> ping env c n = Inl e \<longrightarrow>
       is_redis_available env n svc = Inr False) \<and>
   (\<exists>b. is_redis_available env n svc = Inr b)"
  by (auto simp add: DatabaseService_def init_redis_def is_redis_available_def
      split: sum.splits exc.splits option.splits)

theorem database_service_never_raises_witness:
  "(\<exists>e. init_redis_try redis_down \<lparr>redis_conn = None\<rparr> = Inl e) \<and>
   redis_conn \<lparr>redis_conn = Some (7::nat)\<rparr> = Some 7 \<and>
   ping redis_down 7 1 = Inl (ConnectionError ''refused'') \<and>
   DatabaseService redis_down = Inr \<lparr>redis_conn = None\<rparr> \<and>
   is_redis_available redis_down 1 \<lparr>redis_conn = None\<rparr> = Inr False \<and>
   is_redis_available redis_down 1 \<lparr>redis_conn = Some 7\<rparr> = Inr False"
  using database_service_never_raises [of redis_down 1 "\<lparr>redis_conn = Some 7\<rparr>"]
  by (simp add: redis_down_def init_redis_try_def DatabaseService_def init_redis_def
      is_redis_available_def)

subsection \<open>Database error handler\<close>

text \<open>
  C10. For every pair of requests and exceptions passed to
  \<^verbatim>\<open>handle_database_error\<close> the response is the same: status 500 with the fixed body
  \<^verbatim>\<open>{"detail": "A database error occurred."}\<close> and no header; nothing of the exception
  reaches the response.
\<close>

theorem handle_database_error_constant:
  "handle_database_error request1 exc1 = handle_database_error request2 exc2 \<and>
   status_code (handle_database_error request1 exc1) = 500 \<and>
   content (handle_database_error request1 exc1) =
     JObj [(''detail'', JStr ''A database error occurred.'')] \<and>
   headers (handle_database_error request1 exc1) = []"
  by (simp add: handle_database_error_def JSONResponse_def)

subsection \<open>The middleware chain\<close>

lemma foldl_wrap_rev: "foldl wrap inner (rev ms) trace = inner (trace @ ms)"
  by (induction ms arbitrary: trace) (simp_all add: wrap_def)

lemma stages_entered_user_middleware: "stages_entered a = user_middleware a"
  by (simp add: stages_entered_def build_middleware_stack_def foldl_wrap_rev router_def)

text \<open>
  C2. The specification has a request pass the stages in the order metrics, logging,
  security, validation, compression, error handling, rate limiting, caching,
  authentication, which is also what the comments of \<^verbatim>\<open>setup_middleware\<close> say. The
  function registers the classes in that order, and the framework puts the class added
  last outermost: on an application that has not started, the stages a request enters
  are authentication, caching, rate limiting, error handling, compression, validation,
  security, logging, metrics.
\<close>

theorem setup_middleware_stage_order:
  "setup_middleware \<lparr>user_middleware = [], started = False\<rparr> =
     Inr \<lparr>user_middleware =
            [AuthMiddleware, CacheMiddleware, RateLimitMiddleware, ErrorHandlingMiddleware,
             CompressionMiddleware, ValidationMiddleware, SecurityMiddleware,
             LoggingMiddleware, MetricsMiddleware],
          started = False\<rparr> \<and>
   stages_entered
     \<lparr>user_middleware =
        [AuthMiddleware, CacheMiddleware, RateLimitMiddleware, ErrorHandlingMiddleware,
         CompressionMiddleware, ValidationMiddleware, SecurityMiddleware,
         LoggingMiddleware, MetricsMiddleware],
      started = False\<rparr> =
     [AuthMiddleware, CacheMiddleware, RateLimitMiddleware, ErrorHandlingMiddleware,
      CompressionMiddleware, ValidationMiddleware, SecurityMiddleware,
      LoggingMiddleware, MetricsMiddleware]"
  by (simp add: setup_middleware_def add_middleware_def and_then_def stages_entered_def
      build_middleware_stack_def wrap_def router_def)

subsection \<open>Error handling middleware\<close>

text \<open>
  C3. The specification has an exception of a downstream stage caught by the
  error-handling stage and answered with a JSON response that carries \<^verbatim>\<open>X-Error-ID\<close> and
  \<^verbatim>\<open>X-Error-Type\<close>. For the request \<open>req_orders\<close> whose route raises
  \<^verbatim>\<open>ValueError\<close>: the dispatch that runs for the class is the inherited one, which
  raises \<^verbatim>\<open>NotImplementedError\<close>; and the function \<^verbatim>\<open>dispatch\<close> of the module, run
  with the method table of the class, ends in its fallback response, which has neither
  header.
\<close>

theorem error_handling_dispatch_not_bound:
  "ErrorHandlingMiddleware_dispatch helpers_idle env_boom next_raises req_orders () =
     (Inl NotImplementedError, ()) \<and>
   error_dispatch ErrorHandlingMiddleware_methods helpers_idle env_boom next_raises req_orders () =
     (Inr fallback_response, ()) \<and>
   map_of (headers fallback_response) ''X-Error-ID'' = None \<and>
   map_of (headers fallback_response) ''X-Error-Type'' = None"
  by (simp add: ErrorHandlingMiddleware_dispatch_def ErrorHandlingMiddleware_methods_def
      BaseHTTPMiddleware_dispatch_def error_dispatch_def next_raises_def handler_try_def
      get_status_code_def py_or_def getattr_status_code_def call_method_def
      fallback_response_def JSONResponse_def)

subsection \<open>Rate limiting middleware\<close>



text \<open>
  C4 as the specification states it: with a rate-limit service that raises because its store is
  unavailable, the request \<open>req_orders\<close> should be let through to the next stage. The
  middleware raises \<^verbatim>\<open>HTTPException(500)\<close> instead.
\<close>

theorem store_down_request_denied:
  "fst (dispatch svc_down auth_reject next_ok req_orders ()) =
     Inl (HTTPException 500 (JStr ''Internal server error in rate limiting'') [])"
  by (simp add: dispatch_def dispatch_try_def svc_down_def req_orders_def skip_rate_limit_def
      startswith_def dispatch_except_def)

text \<open>
  C4, amended. For a path that is not exempt: when \<^verbatim>\<open>check_rate_limit\<close> raises an
  exception that is not an \<^verbatim>\<open>HTTPException\<close> (as a service does that passes the
  failure of its store on), or \<^verbatim>\<open>log_request\<close> does after an allowing check, the
  middleware raises \<^verbatim>\<open>HTTPException(500, "Internal server error in rate limiting")\<close>
  and the state is the one the failing call left: the next stage is not called.
\<close>

theorem rate_limit_service_error_is_500:
  assumes "\<not> skip_rate_limit (path request)" and "\<not> is_HTTPException e"
  shows "(check_rate_limit svc (user_id_or_anonymous (get_user_id auth request)) (path request)
            (client_host request) s = (Inl e, s1) \<longrightarrow>
          dispatch svc auth call_next request s =
            (Inl (HTTPException 500 (JStr ''Internal server error in rate limiting'') []), s1)) \<and>
         (check_rate_limit svc (user_id_or_anonymous (get_user_id auth request)) (path request)
            (client_host request) s = (Inr (True, info), s1) \<and>
          log_request svc (user_id_or_anonymous (get_user_id auth request)) (path request)
            (client_host request) s1 = (Inl e, s2) \<longrightarrow>
          dispatch svc auth call_next request s =
            (Inl (HTTPException 500 (JStr ''Internal server error in rate limiting'') []), s2))"
  using assms by (cases e) (simp_all add: dispatch_def dispatch_try_def dispatch_except_def)

theorem rate_limit_service_error_is_500_witness:
  "\<not> skip_rate_limit (path req_orders) \<and>
   \<not> is_HTTPException (ConnectionError ''store unavailable'') \<and>
   check_rate_limit svc_down (user_id_or_anonymous (get_user_id auth_reject req_orders))
     (path req_orders) (client_host req_orders) () =
     (Inl (ConnectionError ''store unavailable''), ()) \<and>
   dispatch svc_down auth_reject next_ok req_orders () =
     (Inl (HTTPException 500 (JStr ''Internal server error in rate limiting'') []), ())"
  using rate_limit_service_error_is_500
    [of req_orders "ConnectionError ''store unavailable''" svc_down auth_reject "()" "()" next_ok]
  by (simp add: skip_rate_limit_def startswith_def req_orders_def svc_down_def)

text \<open>
  C6. The specification gives a rejected request status 429, the body fields \<^verbatim>\<open>error\<close>,
  \<^verbatim>\<open>reset\<close>, \<^verbatim>\<open>limit\<close>, \<^verbatim>\<open>remaining: 0\<close>, \<^verbatim>\<open>retry_after\<close> and a
  \<^verbatim>\<open>Retry-After\<close> header. For \<open>req_orders\<close> and a service that denies it:
  \<^verbatim>\<open>dispatch\<close> raises \<^verbatim>\<open>HTTPException(429)\<close> with these five fields as detail and with
  no header, \<^verbatim>\<open>handle_http_exception\<close> turns it into a response without headers, and
  the \<^verbatim>\<open>Retry-After\<close> header is set only by \<^verbatim>\<open>handle_exceeded_rate_limit\<close>, which
  \<^verbatim>\<open>dispatch\<close> does not call.
\<close>

theorem rejection_has_no_retry_after:
  "dispatch svc_deny auth_reject next_ok req_orders () =
     (Inl (HTTPException 429
        (JObj [(''error'', JStr ''Too Many Requests''),
               (''reset'', JStr ''2025-06-03T12:45:00''),
               (''limit'', JInt 3),
               (''remaining'', JInt 0),
               (''retry_after'', JInt 60)]) []), ()) \<and>
   handle_http_exception req_orders (HTTPException 429 (rate_limit_detail info_denied) []) =
     Inr \<lparr>status_code = 429, content = JObj [(''detail'', rate_limit_detail info_denied)],
          headers = []\<rparr> \<and>
   map_of (headers (handle_exceeded_rate_limit req_orders info_denied)) ''Retry-After'' = Some ''60''"
  by (simp add: dispatch_def dispatch_try_def svc_deny_def req_orders_def skip_rate_limit_def
      startswith_def dispatch_except_def rate_limit_detail_def info_denied_def
      handle_http_exception_def JSONResponse_def handle_exceeded_rate_limit_def
      str_int_def str_nat.simps [of 60] str_nat.simps [of 6] digit_def)

text \<open>
  C7. For a request whose path starts with \<^verbatim>\<open>/static/\<close>, \<^verbatim>\<open>/public/\<close> or
  \<^verbatim>\<open>/health\<close>, the result of \<^verbatim>\<open>dispatch\<close> is the result of the next stage on the
  unchanged state (an exception of the next stage goes through the handlers of
  \<^verbatim>\<open>dispatch\<close>); it is the same for every rate-limit service, so neither
  \<^verbatim>\<open>check_rate_limit\<close> nor \<^verbatim>\<open>log_request\<close> takes part in it.
\<close>

theorem exempt_path_skips_rate_limit:
  "skip_rate_limit (path request) \<Longrightarrow>
   dispatch svc auth call_next request s =
     (case call_next request s of
        (Inl e, s') \<Rightarrow> (Inl (dispatch_except e), s')
      | (Inr response, s') \<Rightarrow> (Inr response, s'))"
  by (simp add: dispatch_def dispatch_try_def)

theorem exempt_path_skips_rate_limit_witness:
  "skip_rate_limit (path req_health) \<and>
   dispatch svc_down auth_reject next_ok req_health () = (Inr ok_response, ())"
  using exempt_path_skips_rate_limit [of req_health svc_down auth_reject next_ok "()"]
  by (simp add: skip_rate_limit_def startswith_def req_health_def next_ok_def)



subsection \<open>Error aggregation\<close>

lemma handler_try_raises:
  "\<exists>e. handler_try ErrorHandlingMiddleware_methods h env request exc s = (Inl e, s)"
  by (simp add: handler_try_def ErrorHandlingMiddleware_methods_def call_method_def Let_def
      split: option.splits)

lemma error_dispatch_keeps_state:
  "snd (error_dispatch ErrorHandlingMiddleware_methods h env call_next request s) =
   snd (call_next request s)"
proof (cases "call_next request s")
  case (Pair r s')
  show ?thesis
  proof (cases r)
    case (Inl exc)
    obtain e where "handler_try ErrorHandlingMiddleware_methods h env request exc s' = (Inl e, s')"
      using handler_try_raises [of h env request exc s'] by auto
    then show ?thesis by (simp add: error_dispatch_def Pair Inl)
  next
    case (Inr response)
    then show ?thesis by (simp add: error_dispatch_def Pair)
  qed
qed

text \<open>
  C5. The specification has the fifth error of one type within 300 seconds, with a
  status code in the notify set, emit exactly one notification. Five requests whose
  route raises the same \<^verbatim>\<open>RuntimeError\<close>, classified 500, with methods that would
  notify on every error: the dispatch that runs for the class raises
  \<^verbatim>\<open>NotImplementedError\<close> five times and creates no notification; the function
  \<^verbatim>\<open>dispatch\<close> of the module, run with the method table of the class, answers five
  times with its fallback response and creates no notification either, since the call
  of \<^verbatim>\<open>_should_notify\<close> raises \<^verbatim>\<open>AttributeError\<close>. Only with the three methods
  in the table would the notifications be created.
\<close>

theorem five_errors_emit_no_notification:
  "get_status_code (RuntimeError ''boom'') = Some 500 \<and>
   500 \<in> set NOTIFY_ON_STATUS \<and>
   length five_requests = ERROR_NOTIFICATION_THRESHOLD \<and>
   serve (ErrorHandlingMiddleware_dispatch helpers_notify env_boom next_boom) five_requests 0 =
     ([Inl NotImplementedError, Inl NotImplementedError, Inl NotImplementedError,
       Inl NotImplementedError, Inl NotImplementedError], 0) \<and>
   serve (error_dispatch ErrorHandlingMiddleware_methods helpers_notify env_boom next_boom)
       five_requests 0 =
     ([Inr fallback_response, Inr fallback_response, Inr fallback_response,
       Inr fallback_response, Inr fallback_response], 0) \<and>
   snd (serve (error_dispatch
          (ErrorHandlingMiddleware_methods @
             [''_should_notify'', ''_create_error_notification'', ''_get_response_data''])
          helpers_notify env_boom next_boom) five_requests 0) = 5"
  by (simp add: get_status_code_def py_or_def getattr_status_code_def NOTIFY_ON_STATUS_def
      ERROR_NOTIFICATION_THRESHOLD_def five_requests_def
      ErrorHandlingMiddleware_dispatch_def ErrorHandlingMiddleware_methods_def
      BaseHTTPMiddleware_dispatch_def error_dispatch_def handler_try_def call_method_def
      next_boom_def helpers_notify_def)

end
